theory Spec2Isabelle
  imports Main "HOL-Library.Sublist"
begin

section \<open>Turkish e-commerce platform analysis report\<close>

text \<open>
  The repository is one script, \<^verbatim>\<open>run_platform_analysis.py\<close>, whose function
  \<^verbatim>\<open>analyze_platforms\<close> prints a report about three platforms from literal data.
  The model below follows the function statement by statement.  Standard output is the
  list of the arguments of the \<^verbatim>\<open>print\<close> calls made so far; a Python \<^verbatim>\<open>str\<close> is
  the list of the bytes of its UTF-8 encoding, so the ASCII part of every literal is
  readable and each other character is a named byte sequence.
\<close>

subsection \<open>Characters of the literals that are not ASCII\<close>

abbreviation O_uml :: string where
  "O_uml \<equiv> [CHR 0xC3, CHR 0x96]"

abbreviation U_uml :: string where
  "U_uml \<equiv> [CHR 0xC3, CHR 0x9C]"

abbreviation u_uml :: string where
  "u_uml \<equiv> [CHR 0xC3, CHR 0xBC]"

abbreviation dotless_i :: string where
  "dotless_i \<equiv> [CHR 0xC4, CHR 0xB1]"

abbreviation s_cedilla :: string where
  "s_cedilla \<equiv> [CHR 0xC5, CHR 0x9F]"

abbreviation bullet :: string where
  "bullet \<equiv> [CHR 0xE2, CHR 0x80, CHR 0xA2]"

abbreviation high_voltage :: string where
  "high_voltage \<equiv> [CHR 0xE2, CHR 0x9A, CHR 0xA1]"

abbreviation check_mark :: string where
  "check_mark \<equiv> [CHR 0xE2, CHR 0x9C, CHR 0x85]"

abbreviation sparkles :: string where
  "sparkles \<equiv> [CHR 0xE2, CHR 0x9C, CHR 0xA8]"

abbreviation vs16 :: string where
  "vs16 \<equiv> [CHR 0xEF, CHR 0xB8, CHR 0x8F]"

abbreviation artist_palette :: string where
  "artist_palette \<equiv> [CHR 0xF0, CHR 0x9F, CHR 0x8E, CHR 0xA8]"

abbreviation direct_hit :: string where
  "direct_hit \<equiv> [CHR 0xF0, CHR 0x9F, CHR 0x8E, CHR 0xAF]"

abbreviation trophy :: string where
  "trophy \<equiv> [CHR 0xF0, CHR 0x9F, CHR 0x8F, CHR 0x86]"

abbreviation office_building :: string where
  "office_building \<equiv> [CHR 0xF0, CHR 0x9F, CHR 0x8F, CHR 0xA2]"

abbreviation label_tag :: string where
  "label_tag \<equiv> [CHR 0xF0, CHR 0x9F, CHR 0x8F, CHR 0xB7]"

abbreviation light_bulb :: string where
  "light_bulb \<equiv> [CHR 0xF0, CHR 0x9F, CHR 0x92, CHR 0xA1]"

abbreviation money_bag :: string where
  "money_bag \<equiv> [CHR 0xF0, CHR 0x9F, CHR 0x92, CHR 0xB0]"

abbreviation chart_up :: string where
  "chart_up \<equiv> [CHR 0xF0, CHR 0x9F, CHR 0x93, CHR 0x88]"

abbreviation bar_chart :: string where
  "bar_chart \<equiv> [CHR 0xF0, CHR 0x9F, CHR 0x93, CHR 0x8A]"

abbreviation clipboard :: string where
  "clipboard \<equiv> [CHR 0xF0, CHR 0x9F, CHR 0x93, CHR 0x8B]"

abbreviation cycle_arrows :: string where
  "cycle_arrows \<equiv> [CHR 0xF0, CHR 0x9F, CHR 0x94, CHR 0x84]"

abbreviation magnifier :: string where
  "magnifier \<equiv> [CHR 0xF0, CHR 0x9F, CHR 0x94, CHR 0x8D]"

abbreviation bell :: string where
  "bell \<equiv> [CHR 0xF0, CHR 0x9F, CHR 0x94, CHR 0x94]"

abbreviation red_circle :: string where
  "red_circle \<equiv> [CHR 0xF0, CHR 0x9F, CHR 0x94, CHR 0xB4]"

abbreviation rocket :: string where
  "rocket \<equiv> [CHR 0xF0, CHR 0x9F, CHR 0x9A, CHR 0x80]"

abbreviation yellow_circle :: string where
  "yellow_circle \<equiv> [CHR 0xF0, CHR 0x9F, CHR 0x9F, CHR 0xA1]"

abbreviation green_circle :: string where
  "green_circle \<equiv> [CHR 0xF0, CHR 0x9F, CHR 0x9F, CHR 0xA2]"

subsection \<open>Data model\<close>

text \<open>
  A status tab is the dict \<^verbatim>\<open>{"name": ..., "count": ..., "active": ...}\<close>; the count is
  an integer or \<^verbatim>\<open>None\<close>.  A platform is the dict with the keys \<^verbatim>\<open>status_tabs\<close>,
  \<^verbatim>\<open>table_columns\<close> and \<^verbatim>\<open>unique_features\<close>.  The dicts \<^verbatim>\<open>platforms_data\<close> and
  \<^verbatim>\<open>recommendations\<close> are iterated with \<^verbatim>\<open>.items()\<close>, which follows insertion order,
  so they are association lists in the order of the literal.
\<close>

record status_tab =
  name :: string
  count :: "int option"
  active :: bool

record platform =
  status_tabs :: "status_tab list"
  table_columns :: int
  unique_features :: "string list"

type_synonym dataset = "(string \<times> platform) list"

type_synonym recommendation_groups = "(string \<times> string list) list"

text \<open>The reading of the wall clock, \<^verbatim>\<open>datetime.now()\<close>.\<close>

record datetime =
  year :: nat
  month :: nat
  day :: nat
  hour :: nat
  minute :: nat
  second :: nat
  microsecond :: nat

type_synonym stdout = "string list"

subsection \<open>Built-ins of Python used by the script\<close>

text \<open>\<^verbatim>\<open>print(s)\<close> appends one entry to standard output (the text \<^verbatim>\<open>s\<close> and a newline).\<close>

definition print :: "string \<Rightarrow> stdout \<Rightarrow> stdout" where
  "print s out = out @ [s]"

text \<open>The text that reaches the terminal: every printed string followed by a newline.\<close>

definition stdout_text :: "stdout \<Rightarrow> string" where
  "stdout_text out = concat (map (\<lambda>s. s @ ''\<newline>'') out)"

text \<open>
  The lines of a text, as \<^verbatim>\<open>str.splitlines\<close> cuts them at the newline character: a
  final newline ends the last line and opens no empty one.
\<close>

fun splitlines :: "string \<Rightarrow> string list" where
  "splitlines [] = []"
| "splitlines (c # cs) =
     (if c = CHR ''\<newline>'' then [] # splitlines cs
      else (case splitlines cs of [] \<Rightarrow> [[c]] | l # ls \<Rightarrow> (c # l) # ls))"

text \<open>\<^verbatim>\<open>str(n)\<close> for an integer, as an f-string field renders it: decimal digits, with a
  minus sign in front of a negative number.\<close>

definition digit_char :: "nat \<Rightarrow> char" where
  "digit_char d = ''0123456789'' ! d"

fun str_nat :: "nat \<Rightarrow> string" where
  "str_nat n = (if n < 10 then [digit_char n] else str_nat (n div 10) @ [digit_char (n mod 10)])"

declare str_nat.simps [simp del]

definition str_int :: "int \<Rightarrow> string" where
  "str_int i = (if i < 0 then CHR ''-'' # str_nat (nat (- i)) else str_nat (nat i))"

text \<open>Reading a decimal numeral back; used to say that \<open>str_nat\<close> and \<open>str_int\<close> print the
  decimal value.\<close>

definition digit_value :: "char \<Rightarrow> nat" where
  "digit_value c = of_char c - 48"

definition nat_of_decimal :: "string \<Rightarrow> nat" where
  "nat_of_decimal s = foldl (\<lambda>acc c. 10 * acc + digit_value c) 0 s"


text \<open>
  \<^verbatim>\<open>str.upper\<close> on the letters of ASCII.  The platform names of the script are ASCII;
  what Python does to a letter outside ASCII is not part of this model, which leaves
  every other byte as it is.
\<close>

definition upper_char :: "char \<Rightarrow> char" where
  "upper_char c =
     (case map_of (zip ''abcdefghijklmnopqrstuvwxyz'' ''ABCDEFGHIJKLMNOPQRSTUVWXYZ'') c of
        Some u \<Rightarrow> u
      | None \<Rightarrow> c)"

definition upper :: "string \<Rightarrow> string" where
  "upper s = map upper_char s"

text \<open>\<^verbatim>\<open>next(iterator, default)\<close>: the first element the iterator yields, or the default.\<close>

definition py_next :: "'a list \<Rightarrow> 'a \<Rightarrow> 'a" where
  "py_next xs d = (case xs of [] \<Rightarrow> d | x # _ \<Rightarrow> x)"

text \<open>\<^verbatim>\<open>enumerate(xs, start)\<close>.\<close>

fun py_enumerate :: "'a list \<Rightarrow> nat \<Rightarrow> (nat \<times> 'a) list" where
  "py_enumerate [] start = []"
| "py_enumerate (x # xs) start = (start, x) # py_enumerate xs (start + 1)"

text \<open>
  \<^verbatim>\<open>strftime('%Y-%m-%d %H:%M')\<close>: the year in four digits and the month, day, hour and
  minute in two, padded with zeros.
\<close>

definition zero_pad :: "nat \<Rightarrow> string \<Rightarrow> string" where
  "zero_pad w s = replicate (w - length s) CHR ''0'' @ s"

definition strftime :: "datetime \<Rightarrow> string" where
  "strftime t =
     zero_pad 4 (str_nat (year t)) @ ''-'' @ zero_pad 2 (str_nat (month t)) @ ''-'' @
     zero_pad 2 (str_nat (day t)) @ '' '' @
     zero_pad 2 (str_nat (hour t)) @ '':'' @ zero_pad 2 (str_nat (minute t))"

subsection \<open>The literal data of the script\<close>

definition platforms_data :: dataset where
  "platforms_data =
    [(''N11'',
      \<lparr>status_tabs =
          [\<lparr>name = ''T'' @ u_uml @ ''m '' @ U_uml @ ''r'' @ u_uml @ ''nler'', count = Some 5376, active = False\<rparr>,
           \<lparr>name = ''Sat'' @ dotless_i @ s_cedilla @ ''takiler'', count = Some 4776, active = True\<rparr>,
           \<lparr>name = ''T'' @ u_uml @ ''kenen '' @ U_uml @ ''r'' @ u_uml @ ''nler'', count = Some 598, active = False\<rparr>,
           \<lparr>name = ''Sat'' @ dotless_i @ s_cedilla @ ''ta Olmayanlar'', count = Some 0, active = False\<rparr>,
           \<lparr>name = ''Aksiyon Bekleyenler'', count = Some 0, active = False\<rparr>,
           \<lparr>name = ''Katalogdan Reddedilenler'', count = Some 1, active = False\<rparr>,
           \<lparr>name = ''Katalog Onay'' @ dotless_i @ '' Bekleyenler'', count = Some 1, active = False\<rparr>],
        table_columns = 14,
        unique_features =
          [''7 distinct product status categories'',
           ''Advanced table customization (Tabloyu '' @ O_uml @ ''zelle'' @ s_cedilla @ ''tir)'',
           ''CSS variable-based column sizing'',
           ''Commission rate display in product info'',
           ''GTIN barcode integration with tooltips'',
           ''Inline popover editing system'',
           ''Sophisticated catalog approval workflow'']\<rparr>),
     (''Hepsiburada'',
      \<lparr>status_tabs =
          [\<lparr>name = ''T'' @ u_uml @ ''m'' @ u_uml, count = Some 1, active = False\<rparr>,
           \<lparr>name = ''Sat'' @ dotless_i @ s_cedilla @ ''ta'', count = None, active = False\<rparr>,
           \<lparr>name = ''Sat'' @ dotless_i @ s_cedilla @ ''a kapal'' @ dotless_i, count = None, active = False\<rparr>,
           \<lparr>name = ''Kilitli'', count = Some 1, active = False\<rparr>],
        table_columns = 12,
        unique_features =
          [''Buybox position tracking'',
           ''Competitive price monitoring'',
           ''30-day price history'',
           ''Product information quality scoring'',
           ''Data quality alerts'',
           ''Dynamic filter addition system'',
           ''Advanced search with multiple criteria'']\<rparr>),
     (''Trendyol'',
      \<lparr>status_tabs =
          [\<lparr>name = ''T'' @ u_uml @ ''m'' @ u_uml, count = None, active = True\<rparr>,
           \<lparr>name = ''Aktif'', count = None, active = False\<rparr>,
           \<lparr>name = ''Pasif'', count = None, active = False\<rparr>,
           \<lparr>name = ''Stokta Yok'', count = None, active = False\<rparr>],
        table_columns = 15,
        unique_features =
          [''Variant management system'',
           ''Product completion percentage'',
           ''Delivery time tracking'',
           ''Grid/Table view toggle'',
           ''Table settings modal (our implementation)'',
           ''Advanced filter panel'']\<rparr>)]"

definition recommendations :: recommendation_groups where
  "recommendations =
    [(green_circle @ '' HIGH PRIORITY'',
      [check_mark @ '' Table Settings Modal (Already implemented!)'',
       cycle_arrows @ '' Advanced Status Tab System (N11'' @ [CHR 0x27] @ ''s 7-category model)'',
       bar_chart @ '' Data Quality Scoring (Hepsiburada pattern)'',
       high_voltage @ '' Enhanced Bulk Operations'']),
     (yellow_circle @ '' MEDIUM PRIORITY'',
      [money_bag @ '' Competitive Price Tracking'',
       chart_up @ '' Product Completion Percentage'',
       label_tag @ vs16 @ '' Commission Display Integration'',
       magnifier @ '' Dynamic Filter Addition'']),
     (red_circle @ '' FUTURE ENHANCEMENTS'',
      [artist_palette @ '' CSS Variable-based Column Sizing'',
       bar_chart @ '' Buybox Position Tracking'',
       bell @ '' Data Quality Alerts'',
       clipboard @ '' Catalog Approval Workflows''])]"

subsection \<open>The function \<^verbatim>\<open>analyze_platforms\<close>\<close>

text \<open>
  The function is one straight run of \<^verbatim>\<open>print\<close> calls and \<^verbatim>\<open>for\<close> loops.  It is cut
  here at its own comments (\<^verbatim>\<open># Status Tab Analysis\<close>, \<^verbatim>\<open># Feature Analysis\<close>,
  \<^verbatim>\<open># Key Insights\<close>, \<^verbatim>\<open># Implementation Recommendations\<close>); every part takes the
  standard output so far and returns it with its own prints appended.  A \<^verbatim>\<open>for\<close> loop is
  a \<open>foldl\<close> of its body over the list it iterates.
\<close>

text \<open>Lines 12 to 15: the banner and the time stamp.\<close>

definition header :: "datetime \<Rightarrow> stdout \<Rightarrow> stdout" where
  "header now out =
     (let out = print (rocket @ '' TURKISH E-COMMERCE PLATFORM ANALYSIS'') out;
          out = print (concat (replicate 60 ''='')) out;
          out = print (''Analysis Date: '' @ strftime now) out;
          out = print (concat (replicate 60 ''='')) out
      in out)"

text \<open>Lines 89 to 91: the body of the loop over the tabs of one platform, with its two
  local variables \<^verbatim>\<open>status\<close> and \<^verbatim>\<open>count_str\<close> as functions of the tab.\<close>

definition status :: "status_tab \<Rightarrow> string" where
  "status tab = (if active tab then ''[ACTIVE]'' else [])"

definition count_str :: "status_tab \<Rightarrow> string" where
  "count_str tab =
     (if count tab \<noteq> None then ''('' @ str_int (the (count tab)) @ '')'' else ''(-)'')"

definition tab_line :: "status_tab \<Rightarrow> string" where
  "tab_line tab =
     ''      '' @ bullet @ '' '' @ name tab @ '' '' @ count_str tab @ '' '' @ status tab"

text \<open>Lines 81 to 91: the body of the loop over the platforms in the status-tab part.\<close>

definition status_tab_block :: "string \<times> platform \<Rightarrow> stdout \<Rightarrow> stdout" where
  "status_tab_block pd out =
     (case pd of (platform, data) \<Rightarrow>
        let out = print (''\<newline>'' @ office_building @ '' '' @ upper platform @ '':'') out;
            out = print (''   Total Categories: '' @ str_nat (length (status_tabs data))) out;
            active_tab = py_next (map name (filter active (status_tabs data))) ''None'';
            out = print (''   Active Tab: '' @ active_tab) out
        in foldl (\<lambda>out tab. print (tab_line tab) out) out (status_tabs data))"

text \<open>Lines 78 to 91.\<close>

definition status_tab_analysis :: "dataset \<Rightarrow> stdout \<Rightarrow> stdout" where
  "status_tab_analysis data out =
     (let out = print (''\<newline>'' @ bar_chart @ '' STATUS TAB ANALYSIS'') out;
          out = print (concat (replicate 40 ''-'')) out
      in foldl (\<lambda>out pd. status_tab_block pd out) out data)"

text \<open>Lines 97 to 99: the body of the loop over the platforms in the feature part.\<close>

definition feature_block :: "string \<times> platform \<Rightarrow> stdout \<Rightarrow> stdout" where
  "feature_block pd out =
     (case pd of (platform, data) \<Rightarrow>
        let out = print (''\<newline>'' @ office_building @ '' '' @ upper platform @ '':'') out
        in foldl (\<lambda>out (i, feature). print (''   '' @ str_nat i @ ''. '' @ feature) out) out
             (py_enumerate (unique_features data) 1))"

text \<open>Lines 94 to 99.\<close>

definition feature_analysis :: "dataset \<Rightarrow> stdout \<Rightarrow> stdout" where
  "feature_analysis data out =
     (let out = print (''\<newline>'' @ light_bulb @ '' UNIQUE FEATURES & INNOVATIONS'') out;
          out = print (concat (replicate 40 ''-'')) out
      in foldl (\<lambda>out pd. feature_block pd out) out data)"

text \<open>Lines 102 to 108.\<close>

definition key_insights :: "stdout \<Rightarrow> stdout" where
  "key_insights out =
     (let out = print (''\<newline>'' @ direct_hit @ '' KEY INSIGHTS'') out;
          out = print (concat (replicate 40 ''-'')) out;
          out = print (check_mark @ '' N11 has the most sophisticated status management (7 categories)'') out;
          out = print (money_bag @ '' Hepsiburada leads in competitive intelligence features'') out;
          out = print (bar_chart @ '' All platforms prioritize table customization'') out;
          out = print (cycle_arrows @ '' Our implementation aligns with industry standards'') out;
          out = print (rocket @ '' Table Settings Modal matches N11/Hepsiburada patterns'') out
      in out)"

text \<open>Lines 136 to 138: the body of the loop over the recommendation groups.\<close>

definition recommendation_block :: "string \<times> string list \<Rightarrow> stdout \<Rightarrow> stdout" where
  "recommendation_block ci out =
     (case ci of (category, items) \<Rightarrow>
        let out = print (''\<newline>'' @ category @ '':'') out
        in foldl (\<lambda>out item. print (''   '' @ item) out) out items)"

text \<open>Lines 111 to 138.\<close>

definition implementation_recommendations :: "recommendation_groups \<Rightarrow> stdout \<Rightarrow> stdout" where
  "implementation_recommendations recs out =
     (let out = print (''\<newline>'' @ rocket @ '' IMPLEMENTATION RECOMMENDATIONS'') out;
          out = print (concat (replicate 40 ''-'')) out
      in foldl (\<lambda>out ci. recommendation_block ci out) out recs)"

text \<open>Lines 140 to 144.\<close>

definition footer :: "stdout \<Rightarrow> stdout" where
  "footer out =
     (let out = print (''\<newline>'' @ concat (replicate 60 ''='')) out;
          out = print (trophy @ '' ANALYSIS COMPLETE'') out;
          out = print (sparkles @ '' Our table settings implementation is industry-standard!'') out;
          out = print (direct_hit @ '' Next focus: Advanced status management system'') out;
          out = print (concat (replicate 60 ''='')) out
      in out)"

text \<open>
  The body of \<^verbatim>\<open>analyze_platforms\<close> with the dict bound to \<^verbatim>\<open>platforms_data\<close> taken as
  an argument, and the function itself, which binds the literal.  The argument \<open>now\<close> is
  what \<^verbatim>\<open>datetime.now()\<close> returns; the result is everything printed, from an empty
  standard output.
\<close>

definition analyze_platforms_on :: "dataset \<Rightarrow> datetime \<Rightarrow> stdout" where
  "analyze_platforms_on data now =
     (let out = header now [];
          out = status_tab_analysis data out;
          out = feature_analysis data out;
          out = key_insights out;
          out = implementation_recommendations recommendations out;
          out = footer out
      in out)"

definition analyze_platforms :: "datetime \<Rightarrow> stdout" where
  "analyze_platforms now = analyze_platforms_on platforms_data now"

subsection \<open>Notions used to state the properties\<close>

text \<open>The heading printed for a platform at the start of its block, in both loops over the
  platforms (lines 81 and 97).\<close>

definition platform_heading :: "string \<Rightarrow> string" where
  "platform_heading platform = ''\<newline>'' @ office_building @ '' '' @ upper platform @ '':''"

text \<open>
  What the specification says the ``Active Tab'' is: the name of the first tab, in list
  order, whose active flag is true, or the text \<^verbatim>\<open>None\<close> when no tab is active.
\<close>

definition first_active_name :: "status_tab list \<Rightarrow> string" where
  "first_active_name tabs = (case find active tabs of Some tab \<Rightarrow> name tab | None \<Rightarrow> ''None'')"

text \<open>Everything printed after the line with the time stamp.\<close>

definition after_header :: "dataset \<Rightarrow> stdout" where
  "after_header data =
     [concat (replicate 60 ''='')] @ status_tab_analysis data [] @ feature_analysis data [] @
     key_insights [] @ implementation_recommendations recommendations [] @ footer []"

text \<open>The title lines of the six parts of the report, in the order of the source.\<close>

definition section_titles :: "string list" where
  "section_titles =
     [rocket @ '' TURKISH E-COMMERCE PLATFORM ANALYSIS'',
      ''\<newline>'' @ bar_chart @ '' STATUS TAB ANALYSIS'',
      ''\<newline>'' @ light_bulb @ '' UNIQUE FEATURES & INNOVATIONS'',
      ''\<newline>'' @ direct_hit @ '' KEY INSIGHTS'',
      ''\<newline>'' @ rocket @ '' IMPLEMENTATION RECOMMENDATIONS'',
      trophy @ '' ANALYSIS COMPLETE'']"

text \<open>
  What the report can see of a platform: a dataset without the \<^verbatim>\<open>table_columns\<close> of its
  platforms.  Two datasets differ only in \<^verbatim>\<open>table_columns\<close> when they agree on this.
\<close>

definition visible :: "string \<times> platform \<Rightarrow> string \<times> status_tab list \<times> string list" where
  "visible pd = (case pd of (p, d) \<Rightarrow> (p, status_tabs d, unique_features d))"

subsection \<open>Loops and blocks\<close>

lemma foldl_print: "foldl (\<lambda>out x. out @ [f x]) out xs = out @ map f xs"
  by (induction xs arbitrary: out) simp_all

lemma foldl_blocks:
  assumes "\<And>x out. blk x out = out @ blk x []"
  shows "foldl (\<lambda>out x. blk x out) out xs = out @ concat (map (\<lambda>x. blk x []) xs)"
proof (induction xs arbitrary: out)
  case Nil
  show ?case by simp
next
  case (Cons x xs)
  have "foldl (\<lambda>out x. blk x out) out (x # xs) = foldl (\<lambda>out x. blk x out) (blk x out) xs"
    by simp
  also have "\<dots> = blk x out @ concat (map (\<lambda>x. blk x []) xs)"
    by (rule Cons.IH)
  also have "\<dots> = (out @ blk x []) @ concat (map (\<lambda>x. blk x []) xs)"
    using assms [of x out] by simp
  finally show ?case by simp
qed

lemma py_next_find:
  "py_next (map name (filter active tabs)) ''None'' = first_active_name tabs"
  by (induction tabs) (simp_all add: py_next_def first_active_name_def)

lemma status_tab_block_out:
  "status_tab_block (p, d) out =
     out @ [platform_heading p,
            ''   Total Categories: '' @ str_nat (length (status_tabs d)),
            ''   Active Tab: '' @ first_active_name (status_tabs d)]
         @ map tab_line (status_tabs d)"
  by (simp add: status_tab_block_def Let_def print_def foldl_print platform_heading_def py_next_find)

lemma enumerate_map:
  "py_enumerate xs start = map (\<lambda>i. (start + i, xs ! i)) [0..<length xs]"
proof (induction xs arbitrary: start)
  case Nil
  show ?case by simp
next
  case (Cons x xs)
  have "[0..<length (x # xs)] = 0 # map Suc [0..<length xs]"
    by (simp add: upt_conv_Cons map_Suc_upt del: upt_Suc)
  then show ?case by (simp add: Cons.IH comp_def)
qed

lemma feature_block_out:
  "feature_block (p, d) out =
     out @ platform_heading p #
       map (\<lambda>i. ''   '' @ str_nat (Suc i) @ ''. '' @ unique_features d ! i) [0..<length (unique_features d)]"
  by (simp add: feature_block_def Let_def print_def platform_heading_def enumerate_map foldl_map
      foldl_print del: upt_Suc)

lemma status_tab_block_append: "status_tab_block pd out = out @ status_tab_block pd []"
  by (cases pd) (simp add: status_tab_block_out)

lemma feature_block_append: "feature_block pd out = out @ feature_block pd []"
  by (cases pd) (simp add: feature_block_out del: upt_Suc)

lemma recommendation_block_out:
  "recommendation_block (c, items) out =
     out @ (''\<newline>'' @ c @ '':'') # map (\<lambda>item. ''   '' @ item) items"
  by (simp add: recommendation_block_def Let_def print_def foldl_print)

lemma recommendation_block_append:
  "recommendation_block ci out = out @ recommendation_block ci []"
  by (cases ci) (simp add: recommendation_block_out)

lemma status_tab_analysis_out:
  "status_tab_analysis data out =
     out @ [''\<newline>'' @ bar_chart @ '' STATUS TAB ANALYSIS'', concat (replicate 40 ''-'')]
         @ concat (map (\<lambda>pd. status_tab_block pd []) data)"
  unfolding status_tab_analysis_def Let_def print_def
  by (subst foldl_blocks [where blk = status_tab_block, OF status_tab_block_append]) simp

lemma feature_analysis_out:
  "feature_analysis data out =
     out @ [''\<newline>'' @ light_bulb @ '' UNIQUE FEATURES & INNOVATIONS'', concat (replicate 40 ''-'')]
         @ concat (map (\<lambda>pd. feature_block pd []) data)"
  unfolding feature_analysis_def Let_def print_def
  by (subst foldl_blocks [where blk = feature_block, OF feature_block_append]) simp

lemma implementation_recommendations_out:
  "implementation_recommendations recs out =
     out @ [''\<newline>'' @ rocket @ '' IMPLEMENTATION RECOMMENDATIONS'', concat (replicate 40 ''-'')]
         @ concat (map (\<lambda>ci. recommendation_block ci []) recs)"
  unfolding implementation_recommendations_def Let_def print_def
  by (subst foldl_blocks [where blk = recommendation_block, OF recommendation_block_append]) simp

lemma key_insights_append: "key_insights out = out @ key_insights []"
  by (simp add: key_insights_def Let_def print_def)

lemma footer_append: "footer out = out @ footer []"
  by (simp add: footer_def Let_def print_def)

lemma analyze_platforms_on_sections:
  "analyze_platforms_on data now =
     header now [] @ status_tab_analysis data [] @ feature_analysis data [] @ key_insights [] @
     implementation_recommendations recommendations [] @ footer []"
proof -
  have "analyze_platforms_on data now =
      footer (implementation_recommendations recommendations
        (key_insights (feature_analysis data (status_tab_analysis data (header now [])))))"
    by (simp add: analyze_platforms_on_def Let_def)
  also have "\<dots> = implementation_recommendations recommendations
        (key_insights (feature_analysis data (status_tab_analysis data (header now [])))) @ footer []"
    by (rule footer_append)
  also have "implementation_recommendations recommendations
        (key_insights (feature_analysis data (status_tab_analysis data (header now [])))) =
      key_insights (feature_analysis data (status_tab_analysis data (header now []))) @
        implementation_recommendations recommendations []"
    by (simp add: implementation_recommendations_out)
  also have "key_insights (feature_analysis data (status_tab_analysis data (header now []))) =
      feature_analysis data (status_tab_analysis data (header now [])) @ key_insights []"
    by (rule key_insights_append)
  also have "feature_analysis data (status_tab_analysis data (header now [])) =
      status_tab_analysis data (header now []) @ feature_analysis data []"
    by (simp add: feature_analysis_out)
  also have "status_tab_analysis data (header now []) = header now [] @ status_tab_analysis data []"
    by (simp add: status_tab_analysis_out)
  finally show ?thesis by simp
qed

subsection \<open>Decimal numerals\<close>

lemma digit_value_digit_char: "d < 10 \<Longrightarrow> digit_value (digit_char d) = d"
proof -
  assume "d < 10"
  then have "d \<in> {0, 1, 2, 3, 4, 5, 6, 7, 8, 9}" by auto
  then show ?thesis
    by (auto simp add: digit_value_def digit_char_def)
qed

lemma nat_of_decimal_snoc:
  "nat_of_decimal (s @ [c]) = 10 * nat_of_decimal s + digit_value c"
  by (simp add: nat_of_decimal_def)

lemma nat_of_decimal_str_nat: "nat_of_decimal (str_nat n) = n"
proof (induction n rule: str_nat.induct)
  case (1 n)
  show ?case
  proof (cases "n < 10")
    case True
    then show ?thesis
      by (subst str_nat.simps) (simp add: nat_of_decimal_def digit_value_digit_char)
  next
    case False
    then have "nat_of_decimal (str_nat n) = 10 * nat_of_decimal (str_nat (n div 10)) + digit_value (digit_char (n mod 10))"
      by (subst str_nat.simps) (simp add: nat_of_decimal_snoc)
    also have "\<dots> = 10 * (n div 10) + n mod 10"
      using 1 False by (simp add: digit_value_digit_char)
    finally show ?thesis by simp
  qed
qed

lemma digit_char_in: "d < 10 \<Longrightarrow> digit_char d \<in> set ''0123456789''"
  unfolding digit_char_def by (rule nth_mem) simp

lemma str_nat_digits: "set (str_nat n) \<subseteq> set ''0123456789''"
proof (induction n rule: str_nat.induct)
  case (1 n)
  show ?case
  proof (cases "n < 10")
    case True
    then show ?thesis
      using digit_char_in [of n] by (subst str_nat.simps) simp
  next
    case False
    then show ?thesis
      using 1 digit_char_in [of "n mod 10"] by (subst str_nat.simps) simp
  qed
qed





subsection \<open>Lines of the printed text\<close>

lemma splitlines_line: "CHR ''\<newline>'' \<notin> set s \<Longrightarrow> splitlines (s @ ''\<newline>'') = [s]"
  by (induction s) auto

lemma splitlines_terminated_not_Nil: "splitlines (s @ ''\<newline>'') \<noteq> []"
  by (induction s) (auto split: list.splits)

lemma splitlines_append:
  "splitlines ((s @ ''\<newline>'') @ r) = splitlines (s @ ''\<newline>'') @ splitlines r"
proof (induction s)
  case Nil
  show ?case by simp
next
  case (Cons a s)
  obtain l ls where "splitlines (s @ ''\<newline>'') = l # ls"
    using splitlines_terminated_not_Nil [of s] by (cases "splitlines (s @ ''\<newline>'')") auto
  with Cons show ?case by simp
qed

lemma stdout_text_append: "stdout_text (xs @ ys) = stdout_text xs @ stdout_text ys"
  by (simp add: stdout_text_def)

lemma splitlines_stdout_Cons:
  "splitlines (stdout_text (x # xs)) = splitlines (x @ ''\<newline>'') @ splitlines (stdout_text xs)"
  using splitlines_append [of x "stdout_text xs"] by (simp add: stdout_text_def)

lemma splitlines_stdout_append:
  "splitlines (stdout_text (xs @ ys)) = splitlines (stdout_text xs) @ splitlines (stdout_text ys)"
proof (induction xs)
  case Nil
  show ?case by (simp add: stdout_text_def)
next
  case (Cons x xs)
  then show ?case by (simp add: splitlines_stdout_Cons)
qed

lemma zero_pad_digits: "set s \<subseteq> set ''0123456789'' \<Longrightarrow> set (zero_pad w s) \<subseteq> set ''0123456789''"
  by (auto simp add: zero_pad_def)

lemma newline_not_in_padded: "CHR ''\<newline>'' \<notin> set (zero_pad w (str_nat n))"
  using zero_pad_digits [OF str_nat_digits, of w n] by auto

lemma newline_not_in_strftime: "CHR ''\<newline>'' \<notin> set (strftime t)"
  by (simp add: strftime_def newline_not_in_padded)

lemma header_out:
  "header now out = out @ [rocket @ '' TURKISH E-COMMERCE PLATFORM ANALYSIS'',
     concat (replicate 60 ''=''), ''Analysis Date: '' @ strftime now, concat (replicate 60 ''='')]"
  by (simp add: header_def Let_def print_def)

lemma analyze_platforms_on_split:
  "analyze_platforms_on data now =
     [rocket @ '' TURKISH E-COMMERCE PLATFORM ANALYSIS'', concat (replicate 60 ''='')] @
     [''Analysis Date: '' @ strftime now] @ after_header data"
  by (simp add: analyze_platforms_on_sections header_out after_header_def)

lemma splitlines_stdout_lines:
  "\<forall>s \<in> set xs. CHR ''\<newline>'' \<notin> set s \<Longrightarrow> splitlines (stdout_text xs) = xs"
proof (induction xs)
  case Nil
  show ?case by (simp add: stdout_text_def)
next
  case (Cons x xs)
  then have "splitlines (stdout_text xs) = xs" and "splitlines (x @ ''\<newline>'') = [x]"
    by (simp_all add: splitlines_line)
  then show ?case by (simp add: splitlines_stdout_Cons)
qed

lemma splitlines_banner:
  "splitlines (stdout_text [rocket @ '' TURKISH E-COMMERCE PLATFORM ANALYSIS'', concat (replicate 60 ''='')]) =
     [rocket @ '' TURKISH E-COMMERCE PLATFORM ANALYSIS'', concat (replicate 60 ''='')]"
  by (rule splitlines_stdout_lines) simp

lemma lines_split:
  "splitlines (stdout_text (analyze_platforms_on data now)) =
     [rocket @ '' TURKISH E-COMMERCE PLATFORM ANALYSIS'', concat (replicate 60 ''='')] @
     [''Analysis Date: '' @ strftime now] @ splitlines (stdout_text (after_header data))"
proof -
  have ts: "splitlines (stdout_text [''Analysis Date: '' @ strftime now]) = [''Analysis Date: '' @ strftime now]"
    using splitlines_line [of "''Analysis Date: '' @ strftime now"] newline_not_in_strftime [of now]
    by (simp add: stdout_text_def)
  show ?thesis
    unfolding analyze_platforms_on_split splitlines_stdout_append splitlines_banner ts ..
qed

subsection \<open>The output on the data of the script\<close>

lemma rule60: "replicate 60 CHR ''='' = ''============================================================''"
  by (simp add: numeral_eq_Suc)

lemma rule40: "replicate 40 CHR ''-'' = ''----------------------------------------''"
  by (simp add: numeral_eq_Suc)

lemma upper_names:
  "upper ''N11'' = ''N11''" "upper ''Hepsiburada'' = ''HEPSIBURADA''" "upper ''Trendyol'' = ''TRENDYOL''"
  by (simp_all add: upper_def upper_char_def)

lemma status_tab_analysis_embedded:
  "status_tab_analysis platforms_data [] =
    [''\<newline>'' @ bar_chart @ '' STATUS TAB ANALYSIS'',
     ''----------------------------------------'',
     ''\<newline>'' @ office_building @ '' N11:'',
     ''   Total Categories: 7'',
     ''   Active Tab: Sat'' @ dotless_i @ s_cedilla @ ''takiler'',
     ''      '' @ bullet @ '' T'' @ u_uml @ ''m '' @ U_uml @ ''r'' @ u_uml @ ''nler (5376) '',
     ''      '' @ bullet @ '' Sat'' @ dotless_i @ s_cedilla @ ''takiler (4776) [ACTIVE]'',
     ''      '' @ bullet @ '' T'' @ u_uml @ ''kenen '' @ U_uml @ ''r'' @ u_uml @ ''nler (598) '',
     ''      '' @ bullet @ '' Sat'' @ dotless_i @ s_cedilla @ ''ta Olmayanlar (0) '',
     ''      '' @ bullet @ '' Aksiyon Bekleyenler (0) '',
     ''      '' @ bullet @ '' Katalogdan Reddedilenler (1) '',
     ''      '' @ bullet @ '' Katalog Onay'' @ dotless_i @ '' Bekleyenler (1) '',
     ''\<newline>'' @ office_building @ '' HEPSIBURADA:'',
     ''   Total Categories: 4'',
     ''   Active Tab: None'',
     ''      '' @ bullet @ '' T'' @ u_uml @ ''m'' @ u_uml @ '' (1) '',
     ''      '' @ bullet @ '' Sat'' @ dotless_i @ s_cedilla @ ''ta (-) '',
     ''      '' @ bullet @ '' Sat'' @ dotless_i @ s_cedilla @ ''a kapal'' @ dotless_i @ '' (-) '',
     ''      '' @ bullet @ '' Kilitli (1) '',
     ''\<newline>'' @ office_building @ '' TRENDYOL:'',
     ''   Total Categories: 4'',
     ''   Active Tab: T'' @ u_uml @ ''m'' @ u_uml,
     ''      '' @ bullet @ '' T'' @ u_uml @ ''m'' @ u_uml @ '' (-) [ACTIVE]'',
     ''      '' @ bullet @ '' Aktif (-) '',
     ''      '' @ bullet @ '' Pasif (-) '',
     ''      '' @ bullet @ '' Stokta Yok (-) '']"
  by (simp add: status_tab_analysis_out status_tab_block_out platforms_data_def platform_heading_def
      upper_names first_active_name_def tab_line_def count_str_def status_def str_int_def
      str_nat.simps digit_char_def rule40)

lemma feature_analysis_embedded:
  "feature_analysis platforms_data [] =
    [''\<newline>'' @ light_bulb @ '' UNIQUE FEATURES & INNOVATIONS'',
     ''----------------------------------------'',
     ''\<newline>'' @ office_building @ '' N11:'',
     ''   1. 7 distinct product status categories'',
     ''   2. Advanced table customization (Tabloyu '' @ O_uml @ ''zelle'' @ s_cedilla @ ''tir)'',
     ''   3. CSS variable-based column sizing'',
     ''   4. Commission rate display in product info'',
     ''   5. GTIN barcode integration with tooltips'',
     ''   6. Inline popover editing system'',
     ''   7. Sophisticated catalog approval workflow'',
     ''\<newline>'' @ office_building @ '' HEPSIBURADA:'',
     ''   1. Buybox position tracking'',
     ''   2. Competitive price monitoring'',
     ''   3. 30-day price history'',
     ''   4. Product information quality scoring'',
     ''   5. Data quality alerts'',
     ''   6. Dynamic filter addition system'',
     ''   7. Advanced search with multiple criteria'',
     ''\<newline>'' @ office_building @ '' TRENDYOL:'',
     ''   1. Variant management system'',
     ''   2. Product completion percentage'',
     ''   3. Delivery time tracking'',
     ''   4. Grid/Table view toggle'',
     ''   5. Table settings modal (our implementation)'',
     ''   6. Advanced filter panel'']"
  by (simp add: feature_analysis_out feature_block_def Let_def print_def platforms_data_def
      upper_names str_nat.simps digit_char_def rule40)

lemma key_insights_embedded:
  "key_insights [] =
    [''\<newline>'' @ direct_hit @ '' KEY INSIGHTS'',
     ''----------------------------------------'',
     check_mark @ '' N11 has the most sophisticated status management (7 categories)'',
     money_bag @ '' Hepsiburada leads in competitive intelligence features'',
     bar_chart @ '' All platforms prioritize table customization'',
     cycle_arrows @ '' Our implementation aligns with industry standards'',
     rocket @ '' Table Settings Modal matches N11/Hepsiburada patterns'']"
  by (simp add: key_insights_def Let_def print_def rule40)

lemma implementation_recommendations_embedded:
  "implementation_recommendations recommendations [] =
    [''\<newline>'' @ rocket @ '' IMPLEMENTATION RECOMMENDATIONS'',
     ''----------------------------------------'',
     ''\<newline>'' @ green_circle @ '' HIGH PRIORITY:'',
     ''   '' @ check_mark @ '' Table Settings Modal (Already implemented!)'',
     ''   '' @ cycle_arrows @ '' Advanced Status Tab System (N11'' @ [CHR 0x27] @ ''s 7-category model)'',
     ''   '' @ bar_chart @ '' Data Quality Scoring (Hepsiburada pattern)'',
     ''   '' @ high_voltage @ '' Enhanced Bulk Operations'',
     ''\<newline>'' @ yellow_circle @ '' MEDIUM PRIORITY:'',
     ''   '' @ money_bag @ '' Competitive Price Tracking'',
     ''   '' @ chart_up @ '' Product Completion Percentage'',
     ''   '' @ label_tag @ vs16 @ '' Commission Display Integration'',
     ''   '' @ magnifier @ '' Dynamic Filter Addition'',
     ''\<newline>'' @ red_circle @ '' FUTURE ENHANCEMENTS:'',
     ''   '' @ artist_palette @ '' CSS Variable-based Column Sizing'',
     ''   '' @ bar_chart @ '' Buybox Position Tracking'',
     ''   '' @ bell @ '' Data Quality Alerts'',
     ''   '' @ clipboard @ '' Catalog Approval Workflows'']"
  by (simp add: implementation_recommendations_out recommendation_block_out recommendations_def rule40)

lemma footer_embedded:
  "footer [] =
    [''\<newline>============================================================'',
     trophy @ '' ANALYSIS COMPLETE'',
     sparkles @ '' Our table settings implementation is industry-standard!'',
     direct_hit @ '' Next focus: Advanced status management system'',
     ''============================================================'']"
  by (simp add: footer_def Let_def print_def rule60)

subsection \<open>Selecting lines of a part by their prefix\<close>


lemma filter_blocks_single:
  assumes "\<And>x. filter P (blk x) = [f x]"
  shows "filter P (concat (map blk xs)) = map f xs"
  by (induction xs) (simp_all add: assms)

lemma no_tab_line:
  "\<And>tab. \<not> prefix ''   Active Tab: '' (tab_line tab)"
  "\<And>tab. \<not> prefix ''   Total Categories: '' (tab_line tab)"
  "\<And>tab. \<not> prefix (''\<newline>'' @ office_building) (tab_line tab)"
  by (simp_all add: tab_line_def)

subsection \<open>Blocks depend on the visible part of a platform only\<close>

lemma map_cong_through:
  assumes "\<And>x y. v x = v y \<Longrightarrow> f x = f y"
  shows "map v xs = map v ys \<Longrightarrow> map f xs = map f ys"
proof (induction xs arbitrary: ys)
  case Nil
  then show ?case by simp
next
  case (Cons x xs)
  then obtain y ys' where ys: "ys = y # ys'" by (cases ys) auto
  with Cons.prems have "v x = v y" and "map v xs = map v ys'" by simp_all
  then have "f x = f y" and "map f xs = map f ys'" using assms Cons.IH by blast+
  with ys show ?case by simp
qed

lemma status_tab_block_visible:
  "visible pd = visible pd' \<Longrightarrow> status_tab_block pd [] = status_tab_block pd' []"
  by (cases pd; cases pd') (simp add: visible_def status_tab_block_out)

lemma feature_block_visible:
  "visible pd = visible pd' \<Longrightarrow> feature_block pd [] = feature_block pd' []"
  by (cases pd; cases pd') (simp add: visible_def feature_block_out del: upt_Suc)

section \<open>The properties\<close>

text \<open>
  C1.  The block of a platform in the status-tab part is its heading, its ``Total
  Categories'' line, its ``Active Tab'' line and the lines of its tabs.  For every
  dataset, the printed ``Active Tab'' lines are, one per platform and in the order of the
  platforms, the name of the first tab in list order whose active flag is true, or
  \<^verbatim>\<open>None\<close> when no tab of the platform is active.  For the data of the script this name
  is \<^verbatim>\<open>Satistakiler\<close> (with its Turkish letters) for N11, \<^verbatim>\<open>None\<close> for Hepsiburada
  and \<^verbatim>\<open>Tumu\<close> (with its Turkish letters) for Trendyol, and the report of the script
  has exactly these three ``Active Tab'' lines.
\<close>

theorem active_tab_printed:
  "status_tab_block (p, d) [] =
     [platform_heading p,
      ''   Total Categories: '' @ str_nat (length (status_tabs d)),
      ''   Active Tab: '' @ first_active_name (status_tabs d)] @
     map tab_line (status_tabs d)
   \<and> filter (prefix ''   Active Tab: '') (status_tab_analysis data []) =
     map (\<lambda>(p, d). ''   Active Tab: '' @ first_active_name (status_tabs d)) data
   \<and> map (\<lambda>(p, d). (p, first_active_name (status_tabs d))) platforms_data =
     [(''N11'', ''Sat'' @ dotless_i @ s_cedilla @ ''takiler''),
      (''Hepsiburada'', ''None''),
      (''Trendyol'', ''T'' @ u_uml @ ''m'' @ u_uml)]
   \<and> filter (prefix ''   Active Tab: '') (analyze_platforms now) =
     [''   Active Tab: Sat'' @ dotless_i @ s_cedilla @ ''takiler'',
      ''   Active Tab: None'',
      ''   Active Tab: T'' @ u_uml @ ''m'' @ u_uml]"
proof (intro conjI)
  show "status_tab_block (p, d) [] =
     [platform_heading p,
      ''   Total Categories: '' @ str_nat (length (status_tabs d)),
      ''   Active Tab: '' @ first_active_name (status_tabs d)] @
     map tab_line (status_tabs d)"
    using status_tab_block_out [of p d "[]"] by simp
  show "map (\<lambda>(p, d). (p, first_active_name (status_tabs d))) platforms_data =
     [(''N11'', ''Sat'' @ dotless_i @ s_cedilla @ ''takiler''),
      (''Hepsiburada'', ''None''),
      (''Trendyol'', ''T'' @ u_uml @ ''m'' @ u_uml)]"
    by (simp add: platforms_data_def first_active_name_def)
  have blk: "filter (prefix ''   Active Tab: '') (status_tab_block pd []) =
      [case pd of (p, d) \<Rightarrow> ''   Active Tab: '' @ first_active_name (status_tabs d)]" for pd
    by (cases pd)
       (simp add: status_tab_block_out platform_heading_def filter_map comp_def no_tab_line)
  show "filter (prefix ''   Active Tab: '') (status_tab_analysis data []) =
     map (\<lambda>(p, d). ''   Active Tab: '' @ first_active_name (status_tabs d)) data"
    by (simp add: status_tab_analysis_out rule40 filter_blocks_single [OF blk])
  show "filter (prefix ''   Active Tab: '') (analyze_platforms now) =
     [''   Active Tab: Sat'' @ dotless_i @ s_cedilla @ ''takiler'',
      ''   Active Tab: None'',
      ''   Active Tab: T'' @ u_uml @ ''m'' @ u_uml]"
    by (simp add: analyze_platforms_def analyze_platforms_on_sections header_out rule60
        status_tab_analysis_embedded feature_analysis_embedded key_insights_embedded
        implementation_recommendations_embedded footer_embedded)
qed


text \<open>
  C3.  In the status-tab part, for every dataset, the printed ``Total Categories'' lines
  are, one per platform and in order, the decimal length of the platform's list of status
  tabs.  The lists of the script have 7, 4 and 4 tabs, and its report prints 7 for N11, 4
  for Hepsiburada and 4 for Trendyol.
\<close>

theorem total_categories_printed:
  "filter (prefix ''   Total Categories: '') (status_tab_analysis data []) =
     map (\<lambda>(p, d). ''   Total Categories: '' @ str_nat (length (status_tabs d))) data
   \<and> map (\<lambda>(p, d). (p, length (status_tabs d))) platforms_data =
     [(''N11'', 7), (''Hepsiburada'', 4), (''Trendyol'', 4)]
   \<and> filter (prefix ''   Total Categories: '') (analyze_platforms now) =
     [''   Total Categories: 7'', ''   Total Categories: 4'', ''   Total Categories: 4'']"
proof (intro conjI)
  have blk: "filter (prefix ''   Total Categories: '') (status_tab_block pd []) =
      [case pd of (p, d) \<Rightarrow> ''   Total Categories: '' @ str_nat (length (status_tabs d))]" for pd
    by (cases pd)
       (simp add: status_tab_block_out platform_heading_def filter_map comp_def no_tab_line)
  show "filter (prefix ''   Total Categories: '') (status_tab_analysis data []) =
     map (\<lambda>(p, d). ''   Total Categories: '' @ str_nat (length (status_tabs d))) data"
    by (simp add: status_tab_analysis_out rule40 filter_blocks_single [OF blk])
  show "map (\<lambda>(p, d). (p, length (status_tabs d))) platforms_data =
     [(''N11'', 7), (''Hepsiburada'', 4), (''Trendyol'', 4)]"
    by (simp add: platforms_data_def)
  show "filter (prefix ''   Total Categories: '') (analyze_platforms now) =
     [''   Total Categories: 7'', ''   Total Categories: 4'', ''   Total Categories: 4'']"
    by (simp add: analyze_platforms_def analyze_platforms_on_sections header_out rule60
        status_tab_analysis_embedded feature_analysis_embedded key_insights_embedded
        implementation_recommendations_embedded footer_embedded)
qed

text \<open>
  C4.  The block of a platform in the feature part is the heading of the platform and
  then one line per feature: line \<open>i\<close> (counted from 0) is the decimal numeral of \<open>i + 1\<close>,
  a full stop and the feature at index \<open>i\<close>, so the whole list is printed in its order,
  numbered from 1 to its length.  The feature part is its two title lines and the blocks
  of the platforms in order.  On the data of the script it is the 25 lines given.
  The function prints this part: entries 30 to 54 of the report of \<^verbatim>\<open>analyze_platforms\<close>
  are the feature part on the data of the script, and for every dataset the report holds
  the feature part of the dataset right after the 4 entries of the header and the
  status-tab part.
\<close>

theorem features_printed:
  "take 25 (drop 30 (analyze_platforms now)) = feature_analysis platforms_data []
   \<and> take (length (feature_analysis data []))
     (drop (4 + length (status_tab_analysis data [])) (analyze_platforms_on data now)) =
   feature_analysis data []
   \<and> feature_block (p, d) [] =
     platform_heading p #
     map (\<lambda>i. ''   '' @ str_nat (i + 1) @ ''. '' @ unique_features d ! i)
       [0..<length (unique_features d)]
   \<and> nat_of_decimal (str_nat (i + 1)) = i + 1
   \<and> feature_analysis data [] =
       [''\<newline>'' @ light_bulb @ '' UNIQUE FEATURES & INNOVATIONS'', concat (replicate 40 ''-'')] @
       concat (map (\<lambda>pd. feature_block pd []) data)
   \<and> feature_analysis platforms_data [] =
    [''\<newline>'' @ light_bulb @ '' UNIQUE FEATURES & INNOVATIONS'',
     ''----------------------------------------'',
     ''\<newline>'' @ office_building @ '' N11:'',
     ''   1. 7 distinct product status categories'',
     ''   2. Advanced table customization (Tabloyu '' @ O_uml @ ''zelle'' @ s_cedilla @ ''tir)'',
     ''   3. CSS variable-based column sizing'',
     ''   4. Commission rate display in product info'',
     ''   5. GTIN barcode integration with tooltips'',
     ''   6. Inline popover editing system'',
     ''   7. Sophisticated catalog approval workflow'',
     ''\<newline>'' @ office_building @ '' HEPSIBURADA:'',
     ''   1. Buybox position tracking'',
     ''   2. Competitive price monitoring'',
     ''   3. 30-day price history'',
     ''   4. Product information quality scoring'',
     ''   5. Data quality alerts'',
     ''   6. Dynamic filter addition system'',
     ''   7. Advanced search with multiple criteria'',
     ''\<newline>'' @ office_building @ '' TRENDYOL:'',
     ''   1. Variant management system'',
     ''   2. Product completion percentage'',
     ''   3. Delivery time tracking'',
     ''   4. Grid/Table view toggle'',
     ''   5. Table settings modal (our implementation)'',
     ''   6. Advanced filter panel'']"
proof (intro conjI)
  show "take 25 (drop 30 (analyze_platforms now)) = feature_analysis platforms_data []"
    by (simp add: analyze_platforms_def analyze_platforms_on_sections header_out rule60
        status_tab_analysis_embedded feature_analysis_embedded key_insights_embedded
        implementation_recommendations_embedded footer_embedded)
  show "take (length (feature_analysis data []))
     (drop (4 + length (status_tab_analysis data [])) (analyze_platforms_on data now)) =
   feature_analysis data []"
  proof -
    have "length (header now []) = 4" by (simp add: header_out)
    then show ?thesis by (simp add: analyze_platforms_on_sections)
  qed
  show "feature_block (p, d) [] =
     platform_heading p #
     map (\<lambda>i. ''   '' @ str_nat (i + 1) @ ''. '' @ unique_features d ! i)
       [0..<length (unique_features d)]"
    by (simp add: feature_block_out del: upt_Suc)
  show "nat_of_decimal (str_nat (i + 1)) = i + 1"
    by (rule nat_of_decimal_str_nat)
  show "feature_analysis data [] =
       [''\<newline>'' @ light_bulb @ '' UNIQUE FEATURES & INNOVATIONS'', concat (replicate 40 ''-'')] @
       concat (map (\<lambda>pd. feature_block pd []) data)"
    using feature_analysis_out [of data "[]"] by simp
  show "feature_analysis platforms_data [] =
    [''\<newline>'' @ light_bulb @ '' UNIQUE FEATURES & INNOVATIONS'',
     ''----------------------------------------'',
     ''\<newline>'' @ office_building @ '' N11:'',
     ''   1. 7 distinct product status categories'',
     ''   2. Advanced table customization (Tabloyu '' @ O_uml @ ''zelle'' @ s_cedilla @ ''tir)'',
     ''   3. CSS variable-based column sizing'',
     ''   4. Commission rate display in product info'',
     ''   5. GTIN barcode integration with tooltips'',
     ''   6. Inline popover editing system'',
     ''   7. Sophisticated catalog approval workflow'',
     ''\<newline>'' @ office_building @ '' HEPSIBURADA:'',
     ''   1. Buybox position tracking'',
     ''   2. Competitive price monitoring'',
     ''   3. 30-day price history'',
     ''   4. Product information quality scoring'',
     ''   5. Data quality alerts'',
     ''   6. Dynamic filter addition system'',
     ''   7. Advanced search with multiple criteria'',
     ''\<newline>'' @ office_building @ '' TRENDYOL:'',
     ''   1. Variant management system'',
     ''   2. Product completion percentage'',
     ''   3. Delivery time tracking'',
     ''   4. Grid/Table view toggle'',
     ''   5. Table settings modal (our implementation)'',
     ''   6. Advanced filter panel'']"
    by (rule feature_analysis_embedded)
qed

text \<open>
  C5.  The recommendations part is its two title lines and then, for every group in the
  order of the dict, the label line of the group followed by one line per item, in list
  order.  The dict of the script has the three groups high priority, medium priority and
  future enhancements, in this order, and the part is the 17 lines given.
  The function prints this part: entries 62 to 78 of the 84 entries of the report of
  \<^verbatim>\<open>analyze_platforms\<close> are the recommendations part, followed by the 5 entries of the
  footer only.
\<close>

theorem recommendations_printed:
  "take 17 (drop 62 (analyze_platforms now)) =
     implementation_recommendations recommendations []
   \<and> length (analyze_platforms now) = 84
   \<and> implementation_recommendations recs [] =
     [''\<newline>'' @ rocket @ '' IMPLEMENTATION RECOMMENDATIONS'', concat (replicate 40 ''-'')] @
     concat (map (\<lambda>(category, items).
                    (''\<newline>'' @ category @ '':'') # map (\<lambda>item. ''   '' @ item) items) recs)
   \<and> map fst recommendations =
       [green_circle @ '' HIGH PRIORITY'', yellow_circle @ '' MEDIUM PRIORITY'',
        red_circle @ '' FUTURE ENHANCEMENTS'']
   \<and> implementation_recommendations recommendations [] =
    [''\<newline>'' @ rocket @ '' IMPLEMENTATION RECOMMENDATIONS'',
     ''----------------------------------------'',
     ''\<newline>'' @ green_circle @ '' HIGH PRIORITY:'',
     ''   '' @ check_mark @ '' Table Settings Modal (Already implemented!)'',
     ''   '' @ cycle_arrows @ '' Advanced Status Tab System (N11'' @ [CHR 0x27] @ ''s 7-category model)'',
     ''   '' @ bar_chart @ '' Data Quality Scoring (Hepsiburada pattern)'',
     ''   '' @ high_voltage @ '' Enhanced Bulk Operations'',
     ''\<newline>'' @ yellow_circle @ '' MEDIUM PRIORITY:'',
     ''   '' @ money_bag @ '' Competitive Price Tracking'',
     ''   '' @ chart_up @ '' Product Completion Percentage'',
     ''   '' @ label_tag @ vs16 @ '' Commission Display Integration'',
     ''   '' @ magnifier @ '' Dynamic Filter Addition'',
     ''\<newline>'' @ red_circle @ '' FUTURE ENHANCEMENTS:'',
     ''   '' @ artist_palette @ '' CSS Variable-based Column Sizing'',
     ''   '' @ bar_chart @ '' Buybox Position Tracking'',
     ''   '' @ bell @ '' Data Quality Alerts'',
     ''   '' @ clipboard @ '' Catalog Approval Workflows'']"
proof (intro conjI)
  show "take 17 (drop 62 (analyze_platforms now)) =
     implementation_recommendations recommendations []"
    by (simp add: analyze_platforms_def analyze_platforms_on_sections header_out rule60
        status_tab_analysis_embedded feature_analysis_embedded key_insights_embedded
        implementation_recommendations_embedded footer_embedded)
  show "length (analyze_platforms now) = 84"
    by (simp add: analyze_platforms_def analyze_platforms_on_sections header_out rule60
        status_tab_analysis_embedded feature_analysis_embedded key_insights_embedded
        implementation_recommendations_embedded footer_embedded)
  have "(\<lambda>ci. recommendation_block ci []) =
      (\<lambda>(category, items). (''\<newline>'' @ category @ '':'') # map (\<lambda>item. ''   '' @ item) items)"
    by (rule ext) (simp add: recommendation_block_out split: prod.split)
  then show "implementation_recommendations recs [] =
     [''\<newline>'' @ rocket @ '' IMPLEMENTATION RECOMMENDATIONS'', concat (replicate 40 ''-'')] @
     concat (map (\<lambda>(category, items).
                    (''\<newline>'' @ category @ '':'') # map (\<lambda>item. ''   '' @ item) items) recs)"
    using implementation_recommendations_out [of recs "[]"] by simp
  show "map fst recommendations =
       [green_circle @ '' HIGH PRIORITY'', yellow_circle @ '' MEDIUM PRIORITY'',
        red_circle @ '' FUTURE ENHANCEMENTS'']"
    by (simp add: recommendations_def)
  show "implementation_recommendations recommendations [] =
    [''\<newline>'' @ rocket @ '' IMPLEMENTATION RECOMMENDATIONS'',
     ''----------------------------------------'',
     ''\<newline>'' @ green_circle @ '' HIGH PRIORITY:'',
     ''   '' @ check_mark @ '' Table Settings Modal (Already implemented!)'',
     ''   '' @ cycle_arrows @ '' Advanced Status Tab System (N11'' @ [CHR 0x27] @ ''s 7-category model)'',
     ''   '' @ bar_chart @ '' Data Quality Scoring (Hepsiburada pattern)'',
     ''   '' @ high_voltage @ '' Enhanced Bulk Operations'',
     ''\<newline>'' @ yellow_circle @ '' MEDIUM PRIORITY:'',
     ''   '' @ money_bag @ '' Competitive Price Tracking'',
     ''   '' @ chart_up @ '' Product Completion Percentage'',
     ''   '' @ label_tag @ vs16 @ '' Commission Display Integration'',
     ''   '' @ magnifier @ '' Dynamic Filter Addition'',
     ''\<newline>'' @ red_circle @ '' FUTURE ENHANCEMENTS:'',
     ''   '' @ artist_palette @ '' CSS Variable-based Column Sizing'',
     ''   '' @ bar_chart @ '' Buybox Position Tracking'',
     ''   '' @ bell @ '' Data Quality Alerts'',
     ''   '' @ clipboard @ '' Catalog Approval Workflows'']"
    by (rule implementation_recommendations_embedded)
qed

text \<open>
  C6.  For every dataset, the platform headings in the whole report are the headings of
  the platforms in the order of the dataset, printed twice: once by the status-tab part
  and once by the feature part, each of which prints one heading per platform in that
  order.  The dataset of the script lists N11, Hepsiburada and Trendyol in this order, and
  the headings in the report of \<^verbatim>\<open>analyze_platforms\<close> are N11, HEPSIBURADA, TRENDYOL and
  again N11, HEPSIBURADA, TRENDYOL.
\<close>

theorem platform_order:
  "filter (prefix (''\<newline>'' @ office_building)) (analyze_platforms_on data now) =
     map (\<lambda>(p, d). platform_heading p) data @ map (\<lambda>(p, d). platform_heading p) data
   \<and> filter (prefix (''\<newline>'' @ office_building)) (analyze_platforms now) =
     [''\<newline>'' @ office_building @ '' N11:'',
      ''\<newline>'' @ office_building @ '' HEPSIBURADA:'',
      ''\<newline>'' @ office_building @ '' TRENDYOL:'',
      ''\<newline>'' @ office_building @ '' N11:'',
      ''\<newline>'' @ office_building @ '' HEPSIBURADA:'',
      ''\<newline>'' @ office_building @ '' TRENDYOL:'']
   \<and> filter (prefix (''\<newline>'' @ office_building)) (status_tab_analysis data []) =
     map (\<lambda>(p, d). platform_heading p) data
   \<and> filter (prefix (''\<newline>'' @ office_building)) (feature_analysis data []) =
     map (\<lambda>(p, d). platform_heading p) data
   \<and> map fst platforms_data = [''N11'', ''Hepsiburada'', ''Trendyol'']
   \<and> map (\<lambda>(p, d). platform_heading p) platforms_data =
     [''\<newline>'' @ office_building @ '' N11:'',
      ''\<newline>'' @ office_building @ '' HEPSIBURADA:'',
      ''\<newline>'' @ office_building @ '' TRENDYOL:'']"
proof (intro conjI)
  let ?P = "prefix (''\<newline>'' @ office_building)"
  have sblk: "filter ?P (status_tab_block pd []) = [case pd of (p, d) \<Rightarrow> platform_heading p]" for pd
    by (cases pd)
       (simp add: status_tab_block_out platform_heading_def filter_map comp_def tab_line_def)
  have "filter ?P (status_tab_analysis data []) =
      filter ?P [''\<newline>'' @ bar_chart @ '' STATUS TAB ANALYSIS'', concat (replicate 40 ''-'')] @
      filter ?P (concat (map (\<lambda>pd. status_tab_block pd []) data))"
    by (simp only: status_tab_analysis_out append_Nil filter_append)
  also have "filter ?P [''\<newline>'' @ bar_chart @ '' STATUS TAB ANALYSIS'', concat (replicate 40 ''-'')] = []"
    by (simp add: rule40)
  also have "filter ?P (concat (map (\<lambda>pd. status_tab_block pd []) data)) =
      map (\<lambda>(p, d). platform_heading p) data"
    by (rule filter_blocks_single [OF sblk])
  finally show s: "filter ?P (status_tab_analysis data []) = map (\<lambda>(p, d). platform_heading p) data"
    by simp
  have fblk: "filter ?P (feature_block pd []) = [case pd of (p, d) \<Rightarrow> platform_heading p]" for pd
    by (cases pd)
       (simp add: feature_block_out platform_heading_def filter_map comp_def del: upt_Suc)
  have "filter ?P (feature_analysis data []) =
      filter ?P [''\<newline>'' @ light_bulb @ '' UNIQUE FEATURES & INNOVATIONS'', concat (replicate 40 ''-'')] @
      filter ?P (concat (map (\<lambda>pd. feature_block pd []) data))"
    by (simp only: feature_analysis_out append_Nil filter_append)
  also have "filter ?P [''\<newline>'' @ light_bulb @ '' UNIQUE FEATURES & INNOVATIONS'', concat (replicate 40 ''-'')] = []"
    by (simp add: rule40)
  also have "filter ?P (concat (map (\<lambda>pd. feature_block pd []) data)) =
      map (\<lambda>(p, d). platform_heading p) data"
    by (rule filter_blocks_single [OF fblk])
  finally show f: "filter ?P (feature_analysis data []) = map (\<lambda>(p, d). platform_heading p) data"
    by simp
  have h0: "filter ?P (header now []) = []"
    by (simp add: header_out rule60)
  have k0: "filter ?P (key_insights []) = []"
    by (simp add: key_insights_embedded)
  have r0: "filter ?P (implementation_recommendations recommendations []) = []"
    by (simp add: implementation_recommendations_embedded)
  have e0: "filter ?P (footer []) = []"
    by (simp add: footer_embedded)
  show "filter ?P (analyze_platforms_on data now) =
     map (\<lambda>(p, d). platform_heading p) data @ map (\<lambda>(p, d). platform_heading p) data"
    by (simp only: analyze_platforms_on_sections filter_append s f h0 k0 r0 e0 append_Nil
        append_Nil2)
  show "filter ?P (analyze_platforms now) =
     [''\<newline>'' @ office_building @ '' N11:'',
      ''\<newline>'' @ office_building @ '' HEPSIBURADA:'',
      ''\<newline>'' @ office_building @ '' TRENDYOL:'',
      ''\<newline>'' @ office_building @ '' N11:'',
      ''\<newline>'' @ office_building @ '' HEPSIBURADA:'',
      ''\<newline>'' @ office_building @ '' TRENDYOL:'']"
    by (simp add: analyze_platforms_def analyze_platforms_on_sections header_out rule60
        status_tab_analysis_embedded feature_analysis_embedded key_insights_embedded
        implementation_recommendations_embedded footer_embedded)
  show "map fst platforms_data = [''N11'', ''Hepsiburada'', ''Trendyol'']"
    by (simp add: platforms_data_def)
  show "map (\<lambda>(p, d). platform_heading p) platforms_data =
     [''\<newline>'' @ office_building @ '' N11:'',
      ''\<newline>'' @ office_building @ '' HEPSIBURADA:'',
      ''\<newline>'' @ office_building @ '' TRENDYOL:'']"
    by (simp add: platforms_data_def platform_heading_def upper_names)
qed

text \<open>
  C7.  The report is the output of the six parts one after the other: header, status-tab
  analysis, feature analysis, insights, recommendations, footer.  Among the printed
  entries the six title lines occur once each and in this order, and the entry with the
  time stamp is the third one, inside the header.
\<close>

theorem section_order:
  "analyze_platforms now =
     header now [] @ status_tab_analysis platforms_data [] @ feature_analysis platforms_data [] @
     key_insights [] @ implementation_recommendations recommendations [] @ footer []
   \<and> filter (\<lambda>l. l \<in> set section_titles) (analyze_platforms now) = section_titles
   \<and> analyze_platforms now ! 2 = ''Analysis Date: '' @ strftime now"
proof (intro conjI)
  show "analyze_platforms now =
     header now [] @ status_tab_analysis platforms_data [] @ feature_analysis platforms_data [] @
     key_insights [] @ implementation_recommendations recommendations [] @ footer []"
    by (simp only: analyze_platforms_def analyze_platforms_on_sections)
  show "filter (\<lambda>l. l \<in> set section_titles) (analyze_platforms now) = section_titles"
    by (simp add: section_titles_def analyze_platforms_def analyze_platforms_on_sections header_out
        rule60 status_tab_analysis_embedded feature_analysis_embedded key_insights_embedded
        implementation_recommendations_embedded footer_embedded)
  show "analyze_platforms now ! 2 = ''Analysis Date: '' @ strftime now"
    by (simp add: analyze_platforms_def analyze_platforms_on_split)
qed

text \<open>
  C8.  The reading of the clock is the only argument of the report.  For two readings the
  printed entries are the same except the third one, the line with the time stamp; the
  same holds for the lines of the text that reaches the terminal, where the time stamp is
  line three and holds no newline.
\<close>

theorem timestamp_only:
  "analyze_platforms t1 = (analyze_platforms t2)[2 := ''Analysis Date: '' @ strftime t1]
   \<and> splitlines (stdout_text (analyze_platforms t1)) =
       (splitlines (stdout_text (analyze_platforms t2)))[2 := ''Analysis Date: '' @ strftime t1]
   \<and> CHR ''\<newline>'' \<notin> set (''Analysis Date: '' @ strftime t1)"
proof (intro conjI)
  show "analyze_platforms t1 = (analyze_platforms t2)[2 := ''Analysis Date: '' @ strftime t1]"
    by (simp add: analyze_platforms_def analyze_platforms_on_split)
  show "splitlines (stdout_text (analyze_platforms t1)) =
       (splitlines (stdout_text (analyze_platforms t2)))[2 := ''Analysis Date: '' @ strftime t1]"
    by (simp add: analyze_platforms_def lines_split)
  show "CHR ''\<newline>'' \<notin> set (''Analysis Date: '' @ strftime t1)"
    by (simp add: newline_not_in_strftime)
qed


text \<open>
  C10.  Two datasets that differ only in the \<^verbatim>\<open>table_columns\<close> of their platforms give
  the same report, for every reading of the clock.
\<close>

theorem table_columns_unused:
  assumes "map visible data = map visible data'"
  shows "analyze_platforms_on data now = analyze_platforms_on data' now"
proof -
  have "map (\<lambda>pd. status_tab_block pd []) data = map (\<lambda>pd. status_tab_block pd []) data'"
    by (rule map_cong_through [where v = visible, OF _ assms]) (erule status_tab_block_visible)
  then have s: "status_tab_analysis data [] = status_tab_analysis data' []"
    by (simp add: status_tab_analysis_out)
  have "map (\<lambda>pd. feature_block pd []) data = map (\<lambda>pd. feature_block pd []) data'"
    by (rule map_cong_through [where v = visible, OF _ assms]) (erule feature_block_visible)
  then have f: "feature_analysis data [] = feature_analysis data' []"
    by (simp add: feature_analysis_out)
  show ?thesis
    by (simp only: analyze_platforms_on_sections s f)
qed

text \<open>
  The hypothesis holds of the dataset of the script and the same dataset with every
  \<^verbatim>\<open>table_columns\<close> (14, 12 and 15 in the script) set to 0.
\<close>

theorem table_columns_unused_witness:
  "map visible platforms_data =
     map visible (map (\<lambda>(p, d). (p, d\<lparr>table_columns := 0\<rparr>)) platforms_data)
   \<and> map (\<lambda>(p, d). table_columns d) platforms_data = [14, 12, 15]
   \<and> analyze_platforms_on (map (\<lambda>(p, d). (p, d\<lparr>table_columns := 0\<rparr>)) platforms_data)
         \<lparr>year = 2026, month = 11, day = 4, hour = 9, minute = 5, second = 0, microsecond = 0\<rparr> =
       analyze_platforms
         \<lparr>year = 2026, month = 11, day = 4, hour = 9, minute = 5, second = 0, microsecond = 0\<rparr>"
proof -
  have v: "map visible platforms_data =
     map visible (map (\<lambda>(p, d). (p, d\<lparr>table_columns := 0\<rparr>)) platforms_data)"
    by (simp add: visible_def platforms_data_def)
  have c: "map (\<lambda>(p, d). table_columns d) platforms_data = [14, 12, 15]"
    by (simp add: platforms_data_def)
  show ?thesis
    using v c table_columns_unused [OF v,
      of "\<lparr>year = 2026, month = 11, day = 4, hour = 9, minute = 5, second = 0, microsecond = 0\<rparr>"]
    by (simp only: analyze_platforms_def simp_thms)
qed

end
